theory Spec2Isabelle
  imports Complex_Main "HOL-Library.Word" "HOL-Library.Signed_Division" "HOL-Library.Multiset"
begin

section \<open>The terminal cube renderer of \<^verbatim>\<open>cubev1.c\<close>\<close>

text \<open>
  Conventions of the embedding.
  \<^item> A C \<^verbatim>\<open>double\<close> is a \<^typ>\<open>real\<close>: the arithmetic is exact, and no NaN or
    infinity exists. Comparisons, clamps and branches are those of the source.
  \<^item> A C \<^verbatim>\<open>int\<close> is an \<^typ>\<open>int\<close>. The source bounds the buffer by 400 x 300 cells,
    and a cast \<^verbatim>\<open>(int)d\<close> is defined in C only when the truncated value fits; the
    model covers the runs in which it does. Division and remainder of C truncate
    towards zero (\<open>sdiv\<close>, \<open>smod\<close>).
  \<^item> \<^verbatim>\<open>uint8_t\<close> is \<^typ>\<open>8 word\<close>.
  \<^item> The globals \<^verbatim>\<open>buf\<close>, \<^verbatim>\<open>zoom\<close>, \<^verbatim>\<open>time_global\<close>, \<^verbatim>\<open>rot_x\<close>, \<^verbatim>\<open>rot_y\<close>,
    \<^verbatim>\<open>rot_z\<close> are explicit arguments; a function that writes \<^verbatim>\<open>buf\<close> returns the
    new buffer.
\<close>

subsection \<open>Vectors and colours\<close>

record Vec3 =
  vx :: real
  vy :: real
  vz :: real

record Color =
  cr :: "8 word"
  cg :: "8 word"
  cb :: "8 word"

definition v3 :: "real \<Rightarrow> real \<Rightarrow> real \<Rightarrow> Vec3" where
  "v3 x y z = \<lparr>vx = x, vy = y, vz = z\<rparr>"

definition add :: "Vec3 \<Rightarrow> Vec3 \<Rightarrow> Vec3" where
  "add a b = v3 (vx a + vx b) (vy a + vy b) (vz a + vz b)"

definition sub :: "Vec3 \<Rightarrow> Vec3 \<Rightarrow> Vec3" where
  "sub a b = v3 (vx a - vx b) (vy a - vy b) (vz a - vz b)"

definition scale :: "Vec3 \<Rightarrow> real \<Rightarrow> Vec3" where
  "scale v s = v3 (vx v * s) (vy v * s) (vz v * s)"

definition dot :: "Vec3 \<Rightarrow> Vec3 \<Rightarrow> real" where
  "dot a b = vx a * vx b + vy a * vy b + vz a * vz b"

definition cross :: "Vec3 \<Rightarrow> Vec3 \<Rightarrow> Vec3" where
  "cross a b = v3 (vy a * vz b - vz a * vy b) (vz a * vx b - vx a * vz b)
                  (vx a * vy b - vy a * vx b)"

definition length_v :: "Vec3 \<Rightarrow> real" where
  "length_v v = sqrt (dot v v)"

definition normalize_v :: "Vec3 \<Rightarrow> Vec3" where
  "normalize_v v = (let len = length_v v in
     if len > 1 / 10 ^ 8 then scale v (1 / len) else v3 0 0 0)"

definition rot_x_apply :: "Vec3 \<Rightarrow> real \<Rightarrow> Vec3" where
  "rot_x_apply v a = (let c = cos a; s = sin a;
       y = vy v * c - vz v * s;
       z = vy v * s + vz v * c
     in v\<lparr>vy := y, vz := z\<rparr>)"

definition rot_y_apply :: "Vec3 \<Rightarrow> real \<Rightarrow> Vec3" where
  "rot_y_apply v a = (let c = cos a; s = sin a;
       x = vx v * c + vz v * s;
       z = - vx v * s + vz v * c
     in v\<lparr>vx := x, vz := z\<rparr>)"

definition rot_z_apply :: "Vec3 \<Rightarrow> real \<Rightarrow> Vec3" where
  "rot_z_apply v a = (let c = cos a; s = sin a;
       x = vx v * c - vy v * s;
       y = vx v * s + vy v * c
     in v\<lparr>vx := x, vy := y\<rparr>)"

definition rgb :: "8 word \<Rightarrow> 8 word \<Rightarrow> 8 word \<Rightarrow> Color" where
  "rgb r g b = \<lparr>cr = r, cg = g, cb = b\<rparr>"

text \<open>The cast \<^verbatim>\<open>(int)d\<close> of a double: truncation towards zero.\<close>

definition trunc :: "real \<Rightarrow> int" where
  "trunc d = (if d < 0 then \<lceil>d\<rceil> else \<lfloor>d\<rfloor>)"

definition shade :: "Color \<Rightarrow> real \<Rightarrow> Color" where
  "shade c brightness =
     (let br = (if brightness < 0 then 0 else if brightness > 1 then 1 else brightness)
      in rgb (word_of_int (trunc (real (unat (cr c)) * br)))
             (word_of_int (trunc (real (unat (cg c)) * br)))
             (word_of_int (trunc (real (unat (cb c)) * br))))"

subsection \<open>The framebuffer with two depth-tested slots per cell\<close>

record Buffer =
  width :: int
  height :: int
  top_color :: "Color list"
  bot_color :: "Color list"
  top_depth :: "real list"
  bot_depth :: "real list"

text \<open>
  \<^verbatim>\<open>buf_init\<close> sets the dimensions and allocates the four arrays with \<^verbatim>\<open>w * h\<close>
  elements each. \<^verbatim>\<open>malloc\<close> leaves them uninitialised, and every frame starts with
  \<^verbatim>\<open>buf_clear\<close>; the fresh arrays hold zeros here.
\<close>

definition buf_init :: "int \<Rightarrow> int \<Rightarrow> Buffer" where
  "buf_init w h = (let sz = nat (w * h) in
     \<lparr>width = w, height = h,
      top_color = replicate sz (rgb 0 0 0),
      bot_color = replicate sz (rgb 0 0 0),
      top_depth = replicate sz 0,
      bot_depth = replicate sz 0\<rparr>)"

definition buf_clear :: "Buffer \<Rightarrow> Buffer" where
  "buf_clear b = (let sz = nat (width b * height b); black = rgb 0 0 0 in
     b\<lparr>top_color := replicate sz black,
       bot_color := replicate sz black,
       top_depth := replicate sz (- (10 ^ 10)),
       bot_depth := replicate sz (- (10 ^ 10))\<rparr>)"

text \<open>The invariant that \<^verbatim>\<open>buf_init\<close> establishes: four arrays of \<^verbatim>\<open>width * height\<close> cells.\<close>

definition buf_wf :: "Buffer \<Rightarrow> bool" where
  "buf_wf b \<longleftrightarrow> 0 \<le> width b \<and> 0 \<le> height b \<and>
     length (top_color b) = nat (width b * height b) \<and>
     length (bot_color b) = nat (width b * height b) \<and>
     length (top_depth b) = nat (width b * height b) \<and>
     length (bot_depth b) = nat (width b * height b)"

definition put_pixel :: "Buffer \<Rightarrow> int \<Rightarrow> int \<Rightarrow> int \<Rightarrow> Color \<Rightarrow> real \<Rightarrow> Buffer" where
  "put_pixel b x y is_top col depth =
     (if x < 0 \<or> x \<ge> width b \<or> y < 0 \<or> y \<ge> height b then b
      else let idx = nat (y * width b + x) in
        if is_top \<noteq> 0 then
          (if depth > top_depth b ! idx
           then b\<lparr>top_color := (top_color b)[idx := col],
                  top_depth := (top_depth b)[idx := depth]\<rparr>
           else b)
        else
          (if depth > bot_depth b ! idx - 0.01
           then b\<lparr>bot_color := (bot_color b)[idx := col],
                  bot_depth := (bot_depth b)[idx := depth]\<rparr>
           else b))"

subsection \<open>Camera projection\<close>

text \<open>
  \<^verbatim>\<open>project\<close> returns 0 for a rejected point (\<open>None\<close> here) and otherwise writes the
  screen position and the depth through its three pointers (\<open>Some (x, y, z)\<close>).
\<close>

definition project :: "Buffer \<Rightarrow> real \<Rightarrow> Vec3 \<Rightarrow> (real \<times> real \<times> real) option" where
  "project b zoom p =
     (if vz p \<ge> - 0.5 \<or> vz p \<le> - 100 then None
      else let focal = 5;
               factor = - focal / vz p;
               pixel_h = real_of_int (height b) * 2;
               min_dim = (if real_of_int (width b) < pixel_h
                          then real_of_int (width b) else pixel_h);
               scale_p = min_dim * 0.38 * zoom
           in Some (vx p * factor * scale_p + real_of_int (width b) * 0.5,
                    - vy p * factor * scale_p + pixel_h * 0.5,
                    vz p))"

subsection \<open>Lighting\<close>

text \<open>
  The four terms of \<^verbatim>\<open>calc_light\<close>, in the order ambient, diff1, diff2, spec; the
  argument \<open>time_global\<close> is the global of that name. \<^verbatim>\<open>pow(b, 100.0)\<close> is applied to a
  base that \<^verbatim>\<open>fmax\<close> has floored at zero.
\<close>

definition light_terms :: "real \<Rightarrow> Vec3 \<Rightarrow> real \<times> real \<times> real \<times> real" where
  "light_terms time_global normal =
     (let light1 = normalize_v (v3 (sin (time_global * 0.7) * 10)
                                   (cos (time_global * 0.4) * 8 + 10) (- 5));
          light2 = normalize_v (v3 (- 6) (- 4) (- 8));
          view_dir = v3 0 0 (- 1);
          ambient = 0.15;
          diff1 = max 0 (dot normal light1) * 0.8;
          diff2 = max 0 (dot normal light2) * 0.15;
          halfway = normalize_v (add light1 view_dir);
          spec = (max 0 (dot normal halfway)) powr 100 * 0.55
      in (ambient, diff1, diff2, spec))"

definition calc_light :: "real \<Rightarrow> Vec3 \<Rightarrow> real" where
  "calc_light time_global normal =
     (case light_terms time_global normal of
        (ambient, diff1, diff2, spec) \<Rightarrow> min (ambient + diff1 + diff2 + spec) 1)"

subsection \<open>Lines\<close>

text \<open>
  The \<^verbatim>\<open>while (1)\<close> loop of \<^verbatim>\<open>draw_line\<close>. Nothing in the loop itself bounds the number
  of iterations, so it is a partial function: \<open>None\<close> stands for a run that never
  reaches the \<^verbatim>\<open>break\<close>. \<open>ex\<close> and \<open>ey\<close> are \<^verbatim>\<open>(int)x1\<close> and \<^verbatim>\<open>(int)y1\<close>.
\<close>

partial_function (option) line_loop ::
  "Color \<Rightarrow> int \<Rightarrow> int \<Rightarrow> int \<Rightarrow> int \<Rightarrow> int \<Rightarrow> int \<Rightarrow> real \<Rightarrow>
   Buffer \<Rightarrow> int \<Rightarrow> int \<Rightarrow> int \<Rightarrow> real \<Rightarrow> Buffer option" where
  [code]: "line_loop col dx dy sx sy ex ey dz b x y err z =
     (let py = y sdiv 2;
          is_top = (if y smod 2 = 0 then 1 else 0);
          b1 = (if py \<ge> 0 \<and> py < height b then put_pixel b x py is_top col (z + 0.01) else b)
      in if x = ex \<and> y = ey then Some b1
         else let e2 = err * 2;
                  err1 = (if e2 > - dy then err - dy else err);
                  x1 = (if e2 > - dy then x + sx else x);
                  err2 = (if e2 < dx then err1 + dx else err1);
                  y1 = (if e2 < dx then y + sy else y)
              in line_loop col dx dy sx sy ex ey dz b1 x1 y1 err2 (z + dz))"

definition draw_line :: "Buffer \<Rightarrow> real \<Rightarrow> Vec3 \<Rightarrow> Vec3 \<Rightarrow> Color \<Rightarrow> Buffer option" where
  "draw_line b zoom p0 p1 col =
     (case project b zoom p0 of None \<Rightarrow> Some b
      | Some (x0, y0, z0) \<Rightarrow>
     (case project b zoom p1 of None \<Rightarrow> Some b
      | Some (x1, y1, z1) \<Rightarrow>
        let dx = \<bar>trunc x1 - trunc x0\<bar>;
            dy = \<bar>trunc y1 - trunc y0\<bar>;
            sx = (if x0 < x1 then 1 else - 1);
            sy = (if y0 < y1 then 1 else - 1);
            err = dx - dy;
            x = trunc x0; y = trunc y0;
            z = z0;
            steps = max (real_of_int dx) (real_of_int dy);
            dz = (if steps > 0 then (z1 - z0) / steps else 0)
        in line_loop col dx dy sx sy (trunc x1) (trunc y1) dz b x y err z))"

subsection \<open>Triangles\<close>

text \<open>
  The body of the inner loop of \<^verbatim>\<open>fill_tri\<close> up to the call of \<^verbatim>\<open>put_pixel\<close>: the three
  edge functions at the centre of sub-pixel \<open>(x, y)\<close>, the inside test, and the
  interpolated depth of an accepted sub-pixel.
\<close>

definition tri_sample ::
  "real \<Rightarrow> real \<Rightarrow> real \<Rightarrow> real \<Rightarrow> real \<Rightarrow> real \<Rightarrow> real \<Rightarrow> real \<Rightarrow> real \<Rightarrow> real \<Rightarrow>
   int \<Rightarrow> int \<Rightarrow> real option" where
  "tri_sample x0 y0 z0 x1 y1 z1 x2 y2 z2 area x y =
     (let py = real_of_int y + 0.5;
          px = real_of_int x + 0.5;
          w0 = (x2 - x1) * (py - y1) - (y2 - y1) * (px - x1);
          w1 = (x0 - x2) * (py - y2) - (y0 - y2) * (px - x2);
          w2 = (x1 - x0) * (py - y0) - (y1 - y0) * (px - x0)
      in if (area > 0 \<and> w0 \<ge> 0 \<and> w1 \<ge> 0 \<and> w2 \<ge> 0) \<or>
            (area < 0 \<and> w0 \<le> 0 \<and> w1 \<le> 0 \<and> w2 \<le> 0)
         then let invA = 1 / area;
                  b0 = w0 * invA;
                  b1 = w1 * invA;
                  b2 = w2 * invA
              in Some (b0 * z0 + b1 * z1 + b2 * z2)
         else None)"

definition tri_pixel ::
  "Color \<Rightarrow> real \<Rightarrow> real \<Rightarrow> real \<Rightarrow> real \<Rightarrow> real \<Rightarrow> real \<Rightarrow> real \<Rightarrow> real \<Rightarrow> real \<Rightarrow> real \<Rightarrow>
   int \<Rightarrow> int \<Rightarrow> Buffer \<Rightarrow> Buffer" where
  "tri_pixel shaded x0 y0 z0 x1 y1 z1 x2 y2 z2 area y x b =
     (case tri_sample x0 y0 z0 x1 y1 z1 x2 y2 z2 area x y of
        None \<Rightarrow> b
      | Some z \<Rightarrow>
          let cell_y = y sdiv 2;
              is_top = (if y smod 2 = 0 then 1 else 0)
          in if cell_y \<ge> 0 \<and> cell_y < height b then put_pixel b x cell_y is_top shaded z
             else b)"

definition fill_tri :: "Buffer \<Rightarrow> real \<Rightarrow> Vec3 \<Rightarrow> Vec3 \<Rightarrow> Vec3 \<Rightarrow> Color \<Rightarrow> real \<Rightarrow> Buffer" where
  "fill_tri b zoom v0 v1 v2 col brightness =
     (case project b zoom v0 of None \<Rightarrow> b
      | Some (x0, y0, z0) \<Rightarrow>
     (case project b zoom v1 of None \<Rightarrow> b
      | Some (x1, y1, z1) \<Rightarrow>
     (case project b zoom v2 of None \<Rightarrow> b
      | Some (x2, y2, z2) \<Rightarrow>
        let min_x0 = \<lfloor>min x0 (min x1 x2)\<rfloor>;
            min_x = (if min_x0 < 0 then 0 else min_x0);
            max_x0 = \<lceil>max x0 (max x1 x2)\<rceil>;
            max_x = (if max_x0 \<ge> width b then width b - 1 else max_x0);
            min_y0 = \<lfloor>min y0 (min y1 y2)\<rfloor>;
            min_y = (if min_y0 < 0 then 0 else min_y0);
            max_y0 = \<lceil>max y0 (max y1 y2)\<rceil>;
            max_y = (if max_y0 \<ge> height b * 2 then height b * 2 - 1 else max_y0);
            area = (x1 - x0) * (y2 - y0) - (y1 - y0) * (x2 - x0)
        in if \<bar>area\<bar> < 1 / 10 ^ 8 then b
           else let shaded = shade col brightness
                in fold (\<lambda>y. fold (tri_pixel shaded x0 y0 z0 x1 y1 z1 x2 y2 z2 area y)
                                   [min_x..max_x])
                        [min_y..max_y] b)))"

subsection \<open>The scene: transform, cull, sort, fill, outline\<close>

text \<open>Vertex indices are array subscripts and never negative: they are naturals here.\<close>

definition CUBE_VERTS :: "Vec3 list" where
  "CUBE_VERTS =
     [v3 (- 1) (- 1) (- 1), v3 1 (- 1) (- 1), v3 1 1 (- 1), v3 (- 1) 1 (- 1),
      v3 (- 1) (- 1) 1, v3 1 (- 1) 1, v3 1 1 1, v3 (- 1) 1 1]"

definition CUBE_FACES :: "nat list list" where
  "CUBE_FACES =
     [[0, 1, 2, 3], [5, 4, 7, 6], [4, 0, 3, 7],
      [1, 5, 6, 2], [3, 2, 6, 7], [4, 5, 1, 0]]"

definition FACE_COLORS :: "Color list" where
  "FACE_COLORS =
     [rgb 255 0 128, rgb 0 128 255, rgb 0 255 80,
      rgb 255 128 0, rgb 200 0 255, rgb 255 220 0]"

definition edges :: "(nat \<times> nat) list" where
  "edges = [(0, 1), (1, 2), (2, 3), (3, 0), (4, 5), (5, 6), (6, 7), (7, 4),
            (0, 4), (1, 5), (2, 6), (3, 7)]"

record Face =
  f_idx :: nat
  f_depth :: real
  f_center :: Vec3
  f_normal :: Vec3
  f_brightness :: real

text \<open>The first loop of \<^verbatim>\<open>render_cube\<close>: scale, rotate about x, y, z, move back by 5.\<close>

definition transform_vert :: "real \<Rightarrow> real \<Rightarrow> real \<Rightarrow> Vec3 \<Rightarrow> Vec3" where
  "transform_vert rot_x rot_y rot_z cv =
     (let size = 1;
          v = scale cv size;
          v = rot_x_apply v rot_x;
          v = rot_y_apply v rot_y;
          v = rot_z_apply v rot_z
      in v\<lparr>vz := vz v - 5\<rparr>)"

definition transform_verts :: "real \<Rightarrow> real \<Rightarrow> real \<Rightarrow> Vec3 list" where
  "transform_verts rot_x rot_y rot_z = map (transform_vert rot_x rot_y rot_z) CUBE_VERTS"

text \<open>
  The second loop: normal, centre and the culling test of face \<open>i\<close>. The array
  \<^verbatim>\<open>faces\<close> with its fill count \<^verbatim>\<open>num_vis\<close> is the list of the faces kept so far.
\<close>

definition face_normal :: "Vec3 list \<Rightarrow> nat \<Rightarrow> Vec3" where
  "face_normal verts i =
     (let f = CUBE_FACES ! i;
          v0 = verts ! (f ! 0); v1 = verts ! (f ! 1); v2 = verts ! (f ! 2);
          edge1 = sub v1 v0;
          edge2 = sub v2 v0
      in normalize_v (cross edge1 edge2))"

definition face_center :: "Vec3 list \<Rightarrow> nat \<Rightarrow> Vec3" where
  "face_center verts i =
     (let f = CUBE_FACES ! i
      in scale (add (add (add (verts ! (f ! 0)) (verts ! (f ! 1))) (verts ! (f ! 2)))
                    (verts ! (f ! 3))) 0.25)"

definition cull_step :: "real \<Rightarrow> Vec3 list \<Rightarrow> nat \<Rightarrow> Face list \<Rightarrow> Face list" where
  "cull_step time_global verts i faces =
     (let normal = face_normal verts i;
          center = face_center verts i;
          to_cam = normalize_v (scale center (- 1))
      in if dot normal to_cam > 0
         then faces @ [\<lparr>f_idx = i, f_depth = vz center, f_center = center,
                         f_normal = normal,
                         f_brightness = calc_light time_global normal\<rparr>]
         else faces)"

definition cull_faces :: "real \<Rightarrow> Vec3 list \<Rightarrow> Face list" where
  "cull_faces time_global verts = fold (cull_step time_global verts) [0..<6] []"

text \<open>The third loop: the exchange sort by centroid depth, ascending.\<close>

definition swap_if_deeper :: "nat \<Rightarrow> nat \<Rightarrow> Face list \<Rightarrow> Face list" where
  "swap_if_deeper i j faces =
     (if f_depth (faces ! i) > f_depth (faces ! j)
      then faces[i := faces ! j, j := faces ! i]
      else faces)"

definition sort_faces :: "Face list \<Rightarrow> Face list" where
  "sort_faces faces =
     (let num_vis = length faces
      in fold (\<lambda>i. fold (swap_if_deeper i) [i + 1..<num_vis]) [0..<num_vis - 1] faces)"

text \<open>The fourth loop: each kept face as the triangles 0-1-2 and 0-2-3.\<close>

definition fill_face :: "real \<Rightarrow> Vec3 list \<Rightarrow> Face \<Rightarrow> Buffer \<Rightarrow> Buffer" where
  "fill_face zoom verts fc b =
     (let i = f_idx fc;
          face = CUBE_FACES ! i;
          col = FACE_COLORS ! i;
          b1 = fill_tri b zoom (verts ! (face ! 0)) (verts ! (face ! 1)) (verts ! (face ! 2))
                 col (f_brightness fc)
      in fill_tri b1 zoom (verts ! (face ! 0)) (verts ! (face ! 2)) (verts ! (face ! 3))
           col (f_brightness fc))"

text \<open>
  The last loop: for an edge \<open>(v0, v1)\<close>, the flags \<^verbatim>\<open>has_v0\<close> and \<^verbatim>\<open>has_v1\<close> over the
  four corners of a face, the counter \<^verbatim>\<open>shared\<close> over the kept faces, and the line
  drawn when the counter ends at one.
\<close>

definition has_flags :: "nat list \<Rightarrow> nat \<Rightarrow> nat \<Rightarrow> bool \<times> bool" where
  "has_flags face v0 v1 =
     fold (\<lambda>k (has_v0, has_v1).
             (if face ! k = v0 then True else has_v0,
              if face ! k = v1 then True else has_v1))
          [0..<4] (False, False)"

definition shared_count :: "Face list \<Rightarrow> nat \<Rightarrow> nat \<Rightarrow> int" where
  "shared_count faces v0 v1 =
     fold (\<lambda>fc shared.
             case has_flags (CUBE_FACES ! f_idx fc) v0 v1 of
               (has_v0, has_v1) \<Rightarrow> if has_v0 \<and> has_v1 then shared + 1 else shared)
          faces 0"

fun edge_loop ::
  "real \<Rightarrow> Vec3 list \<Rightarrow> Face list \<Rightarrow> (nat \<times> nat) list \<Rightarrow> Buffer \<Rightarrow> Buffer option" where
  "edge_loop zoom verts faces [] b = Some b"
| "edge_loop zoom verts faces ((v0, v1) # es) b =
     (if shared_count faces v0 v1 = 1
      then (case draw_line b zoom (verts ! v0) (verts ! v1) (rgb 255 255 255) of
              None \<Rightarrow> None
            | Some b1 \<Rightarrow> edge_loop zoom verts faces es b1)
      else edge_loop zoom verts faces es b)"

definition render_cube ::
  "Buffer \<Rightarrow> real \<Rightarrow> real \<Rightarrow> real \<Rightarrow> real \<Rightarrow> real \<Rightarrow> Buffer option" where
  "render_cube b time_global zoom rot_x rot_y rot_z =
     (let verts = transform_verts rot_x rot_y rot_z;
          faces = sort_faces (cull_faces time_global verts);
          b1 = fold (fill_face zoom verts) faces b
      in edge_loop zoom verts faces edges b1)"

text \<open>
  The edges on which the last loop calls \<^verbatim>\<open>draw_line\<close>, in order, and the lines drawn
  one after the other.
\<close>

definition silhouette_edges :: "Face list \<Rightarrow> (nat \<times> nat) list" where
  "silhouette_edges faces = filter (\<lambda>(v0, v1). shared_count faces v0 v1 = 1) edges"

fun draw_lines :: "real \<Rightarrow> Vec3 list \<Rightarrow> (nat \<times> nat) list \<Rightarrow> Buffer \<Rightarrow> Buffer option" where
  "draw_lines zoom verts [] b = Some b"
| "draw_lines zoom verts ((v0, v1) # es) b =
     (case draw_line b zoom (verts ! v0) (verts ! v1) (rgb 255 255 255) of
        None \<Rightarrow> None
      | Some b1 \<Rightarrow> draw_lines zoom verts es b1)"

subsection \<open>The compositor\<close>

text \<open>
  What \<^verbatim>\<open>buf_render\<close> prints, one constructor per \<^verbatim>\<open>printf\<close> or \<^verbatim>\<open>putchar\<close>:
  \<open>Home\<close> is ESC[H, \<open>ResetAll\<close> is ESC[0m, \<open>DefaultBg\<close> is ESC[49m, \<open>SetFg c\<close> is
  ESC[38;2;r;g;bm, \<open>SetBg c\<close> is ESC[48;2;r;g;bm, \<open>Blank\<close> is a space, \<open>UpperHalf\<close>
  and \<open>LowerHalf\<close> are the half-block glyphs, \<open>Newline\<close> is the line feed.
\<close>

datatype instr =
    Home | ResetAll | DefaultBg | SetFg Color | SetBg Color
  | Blank | UpperHalf | LowerHalf | Newline

record rstate =
  last_fg :: Color
  last_bg :: Color
  bg_is_default :: bool

text \<open>The four values the loop body reads for a cell: top set, bottom set, and the two colours.\<close>

type_synonym cell = "bool \<times> bool \<times> Color \<times> Color"

definition cell_at :: "Buffer \<Rightarrow> int \<Rightarrow> int \<Rightarrow> cell" where
  "cell_at b x y =
     (let idx = nat (y * width b + x);
          top_set = top_depth b ! idx > - (10 ^ 9);
          bot_set = bot_depth b ! idx > - (10 ^ 9);
          t_col = top_color b ! idx;
          b_col = bot_color b ! idx
      in (top_set, bot_set, t_col, b_col))"

definition differs :: "Color \<Rightarrow> Color \<Rightarrow> bool" where
  "differs c l \<longleftrightarrow> cr c \<noteq> cr l \<or> cg c \<noteq> cg l \<or> cb c \<noteq> cb l"

definition emit_cell :: "cell \<Rightarrow> rstate \<Rightarrow> instr list \<times> rstate" where
  "emit_cell c st =
     (case c of (top_set, bot_set, t_col, b_col) \<Rightarrow>
        if \<not> top_set \<and> \<not> bot_set then
          ((if \<not> bg_is_default st then [DefaultBg] else []) @ [Blank],
           st\<lparr>bg_is_default := True\<rparr>)
        else if top_set \<and> \<not> bot_set then
          ((if \<not> bg_is_default st then [DefaultBg] else []) @
           (if differs t_col (last_fg st) then [SetFg t_col] else []) @ [UpperHalf],
           st\<lparr>bg_is_default := True,
              last_fg := (if differs t_col (last_fg st) then t_col else last_fg st)\<rparr>)
        else if \<not> top_set \<and> bot_set then
          ((if \<not> bg_is_default st then [DefaultBg] else []) @
           (if differs b_col (last_fg st) then [SetFg b_col] else []) @ [LowerHalf],
           st\<lparr>bg_is_default := True,
              last_fg := (if differs b_col (last_fg st) then b_col else last_fg st)\<rparr>)
        else
          ((if differs t_col (last_fg st) then [SetFg t_col] else []) @
           (if differs b_col (last_bg st) then [SetBg b_col] else []) @ [UpperHalf],
           st\<lparr>last_fg := (if differs t_col (last_fg st) then t_col else last_fg st),
              last_bg := (if differs b_col (last_bg st) then b_col else last_bg st),
              bg_is_default := False\<rparr>))"

text \<open>
  The inner loop over the columns of row \<open>y\<close> and the outer loop over the rows. The
  output is kept as it is produced, one list of instructions per cell and one list of
  cells per row; \<^verbatim>\<open>buf_render\<close> prints their concatenation.
\<close>

fun cells_loop :: "Buffer \<Rightarrow> int \<Rightarrow> int list \<Rightarrow> rstate \<Rightarrow> instr list list \<times> rstate" where
  "cells_loop b y [] st = ([], st)"
| "cells_loop b y (x # xs) st =
     (case emit_cell (cell_at b x y) st of (out, st1) \<Rightarrow>
      case cells_loop b y xs st1 of (outs, st2) \<Rightarrow> (out # outs, st2))"

fun rows_loop :: "Buffer \<Rightarrow> int list \<Rightarrow> rstate \<Rightarrow> instr list list list" where
  "rows_loop b [] st = []"
| "rows_loop b (y # ys) st =
     (case cells_loop b y [0..width b - 1] st of (row, st1) \<Rightarrow>
        row # rows_loop b ys (st1\<lparr>bg_is_default := True\<rparr>))"

definition render_cells :: "Buffer \<Rightarrow> instr list list list" where
  "render_cells b =
     rows_loop b [0..height b - 1]
       \<lparr>last_fg = rgb 255 255 255, last_bg = rgb 255 255 255, bg_is_default = True\<rparr>"

definition buf_render :: "Buffer \<Rightarrow> instr list" where
  "buf_render b =
     [Home, ResetAll] @
     concat (map (\<lambda>row. concat row @ [ResetAll, Newline]) (render_cells b))"

text \<open>
  The colours a cell asks for, in the words of the interface description: an empty
  cell none; a cell with one sub-pixel set that sub-pixel's colour as foreground on
  the default background; a cell with both set the top colour as foreground and the
  bottom colour as background. \<open>None\<close> is the default.
\<close>

definition required_fg :: "cell \<Rightarrow> Color option" where
  "required_fg c = (case c of (top_set, bot_set, t_col, b_col) \<Rightarrow>
     if top_set then Some t_col else if bot_set then Some b_col else None)"

definition required_bg :: "cell \<Rightarrow> Color option" where
  "required_bg c = (case c of (top_set, bot_set, t_col, b_col) \<Rightarrow>
     if top_set \<and> bot_set then Some b_col else None)"

text \<open>The colour instructions of a piece of output, by kind.\<close>

definition fg_changes :: "instr list \<Rightarrow> instr list" where
  "fg_changes out = filter (\<lambda>i. case i of SetFg c \<Rightarrow> True | _ \<Rightarrow> False) out"

definition bg_changes :: "instr list \<Rightarrow> instr list" where
  "bg_changes out =
     filter (\<lambda>i. case i of SetBg c \<Rightarrow> True | DefaultBg \<Rightarrow> True | _ \<Rightarrow> False) out"

subsection \<open>Concrete frames\<close>

text \<open>
  A cleared frame of 4 by 2 cells, and a frame of one cell whose bottom slot holds a
  fragment of depth 0.
\<close>

definition frame_4x2 :: Buffer where
  "frame_4x2 = buf_clear (buf_init 4 2)"

definition frame_1x1 :: Buffer where
  "frame_1x1 = put_pixel (buf_clear (buf_init 1 1)) 0 0 0 (rgb 10 20 30) 0"

text \<open>The cleared frame with one fragment of the same colour in the top slots of two
  neighbouring cells of row 0.\<close>

definition two_cells :: Buffer where
  "two_cells = put_pixel (put_pixel frame_4x2 1 0 1 (rgb 255 0 128) (- 5))
                 2 0 1 (rgb 255 0 128) (- 5)"

section \<open>Properties\<close>

subsection \<open>The frames, evaluated\<close>

lemma frame_4x2_eq:
  "frame_4x2 = \<lparr>width = 4, height = 2,
     top_color = replicate 8 (rgb 0 0 0), bot_color = replicate 8 (rgb 0 0 0),
     top_depth = replicate 8 (- (10 ^ 10)), bot_depth = replicate 8 (- (10 ^ 10))\<rparr>"
  by (simp add: frame_4x2_def buf_clear_def buf_init_def Let_def)


lemma buf_wf_frame_4x2: "buf_wf frame_4x2"
  by (simp add: frame_4x2_eq buf_wf_def)


subsection \<open>Depth tests of \<^verbatim>\<open>put_pixel\<close>\<close>

text \<open>The index of an in-bounds cell lies inside the four arrays.\<close>

lemma cell_index_in_range:
  assumes "0 \<le> x" "x < w" "0 \<le> y" "y < (h::int)"
  shows "y * w + x < w * h"
proof -
  have "y + 1 \<le> h" using assms by simp
  then have "(y + 1) * w \<le> h * w"
    using assms by (intro mult_right_mono) auto
  then show "y * w + x < w * h"
    using assms by (simp add: algebra_simps)
qed

lemma cell_index_nat:
  assumes "0 \<le> x" "x < width b" "0 \<le> y" "y < height b"
  shows "nat (y * width b + x) < nat (width b * height b)"
  using assms cell_index_in_range [of x "width b" y "height b"]
  by simp

text \<open>
  Claim C1. In a well-formed buffer, for an in-bounds cell and a write to the top slot:
  a depth equal to or below the stored top depth leaves the buffer as it is (so the
  stored top colour and depth are unchanged), and a strictly greater depth makes the
  stored top colour and top depth of that cell the written ones.
\<close>

theorem put_pixel_top_depth_test:
  assumes "buf_wf b" "0 \<le> x" "x < width b" "0 \<le> y" "y < height b" "is_top \<noteq> 0"
  shows "(depth \<le> top_depth b ! nat (y * width b + x) \<longrightarrow>
           put_pixel b x y is_top col depth = b) \<and>
         (depth > top_depth b ! nat (y * width b + x) \<longrightarrow>
           top_color (put_pixel b x y is_top col depth) ! nat (y * width b + x) = col \<and>
           top_depth (put_pixel b x y is_top col depth) ! nat (y * width b + x) = depth)"
  using assms cell_index_nat [of x b y]
  by (simp add: put_pixel_def buf_wf_def Let_def)

theorem put_pixel_top_depth_test_witness:
  "buf_wf frame_4x2 \<and> (0::int) \<le> 1 \<and> 1 < width frame_4x2 \<and>
   (0::int) \<le> 0 \<and> 0 < height frame_4x2 \<and> (1::int) \<noteq> 0 \<and>
   - (10 ^ 10) \<le> top_depth frame_4x2 ! nat (0 * width frame_4x2 + 1) \<and>
   put_pixel frame_4x2 1 0 1 (rgb 9 9 9) (- (10 ^ 10)) = frame_4x2 \<and>
   - 5 > top_depth frame_4x2 ! nat (0 * width frame_4x2 + 1) \<and>
   top_color (put_pixel frame_4x2 1 0 1 (rgb 9 9 9) (- 5)) ! nat (0 * width frame_4x2 + 1)
     = rgb 9 9 9 \<and>
   top_depth (put_pixel frame_4x2 1 0 1 (rgb 9 9 9) (- 5)) ! nat (0 * width frame_4x2 + 1)
     = - 5"
proof -
  have le: "- (10 ^ 10) \<le> top_depth frame_4x2 ! nat (0 * width frame_4x2 + 1)"
    and gt: "- 5 > top_depth frame_4x2 ! nat (0 * width frame_4x2 + 1)"
    by (simp_all add: frame_4x2_eq)
  show ?thesis
    using put_pixel_top_depth_test [of frame_4x2 1 0 1 "- (10 ^ 10)" "rgb 9 9 9"]
      put_pixel_top_depth_test [of frame_4x2 1 0 1 "- 5" "rgb 9 9 9"]
      buf_wf_frame_4x2 le gt
    by (simp add: frame_4x2_eq)
qed




subsection \<open>The rejection window of \<^verbatim>\<open>project\<close>\<close>

text \<open>
  Claim C3, as the code has it. \<^verbatim>\<open>project\<close> rejects exactly the points with
  \<open>z \<ge> -0.5\<close> or \<open>z \<le> -100\<close> and accepts all others; its result is a function of the
  point, the zoom and the two dimensions of the buffer only, whatever the buffer holds.
  The claim's window \<open>[-0.5, 0]\<close> leaves out the points behind the camera, \<open>z > 0\<close>,
  which the code rejects as well.
\<close>

theorem project_reject_window:
  "(project b zoom p = None \<longleftrightarrow> vz p \<ge> - 0.5 \<or> vz p \<le> - 100) \<and>
   (width b' = width b \<and> height b' = height b \<longrightarrow> project b' zoom p = project b zoom p)"
  by (simp add: project_def Let_def)

theorem project_reject_window_witness:
  "project frame_4x2 0.6 (v3 0 0 1) = None \<and> vz (v3 0 0 1) \<ge> - 0.5 \<and>
   width (frame_1x1\<lparr>bot_depth := [5]\<rparr>) = width frame_1x1 \<and>
   height (frame_1x1\<lparr>bot_depth := [5]\<rparr>) = height frame_1x1 \<and>
   project (frame_1x1\<lparr>bot_depth := [5]\<rparr>) 0.6 (v3 1 1 (- 5))
     = project frame_1x1 0.6 (v3 1 1 (- 5))"
  using project_reject_window [of frame_4x2 "0.6" "v3 0 0 1" frame_4x2]
    project_reject_window [of frame_1x1 "0.6" "v3 1 1 (- 5)" "frame_1x1\<lparr>bot_depth := [5]\<rparr>"]
  by (simp add: v3_def)

text \<open>
  The claim C3 as it is stated fails at the point \<open>(0, 0, 1)\<close>: its \<open>z\<close> is neither in
  \<open>[-0.5, 0]\<close> nor at most -100, so the claim has it accepted, and the code rejects it.
\<close>

theorem project_reject_window_counterexample:
  "\<not> (project frame_4x2 0.6 (v3 0 0 1) = None \<longleftrightarrow>
       (- 0.5 \<le> vz (v3 0 0 1) \<and> vz (v3 0 0 1) \<le> 0) \<or> vz (v3 0 0 1) \<le> - 100)"
  by (simp add: project_def v3_def)

subsection \<open>Brightness\<close>

lemma light_terms_nonneg:
  "case light_terms t n of (ambient, diff1, diff2, spec) \<Rightarrow>
     0 < ambient \<and> 0 \<le> diff1 \<and> 0 \<le> diff2 \<and> 0 \<le> spec"
  by (simp add: light_terms_def Let_def)

text \<open>
  Claim C4. For every normal, of unit length or not, and every value of the elapsed
  time: the sum of the ambient, the two diffuse and the specular term is not negative,
  the brightness is that sum cut off at 1, and so the brightness lies between 0 and 1.
\<close>

theorem calc_light_bounds:
  "(case light_terms time_global normal of (ambient, diff1, diff2, spec) \<Rightarrow>
      0 \<le> ambient + diff1 + diff2 + spec \<and>
      calc_light time_global normal = min (ambient + diff1 + diff2 + spec) 1) \<and>
   0 \<le> calc_light time_global normal \<and> calc_light time_global normal \<le> 1"
proof -
  obtain a d1 d2 s where t: "light_terms time_global normal = (a, d1, d2, s)"
    by (cases "light_terms time_global normal") auto
  with light_terms_nonneg [of time_global normal]
  have "0 < a" "0 \<le> d1" "0 \<le> d2" "0 \<le> s" by simp_all
  then show ?thesis by (simp add: calc_light_def t)
qed

theorem calc_light_bounds_witness:
  "0 \<le> calc_light 0 (v3 0 0 1) \<and> calc_light 0 (v3 0 0 1) \<le> 1 \<and>
   0 \<le> calc_light 3 (v3 1 2 3) \<and> calc_light 3 (v3 1 2 3) \<le> 1"
  using calc_light_bounds [of 0 "v3 0 0 1"] calc_light_bounds [of 3 "v3 1 2 3"]
  by blast

subsection \<open>Rejected primitives\<close>

lemma project_None_iff:
  "project b zoom p = None \<longleftrightarrow> vz p \<ge> - 0.5 \<or> vz p \<le> - 100"
  by (simp add: project_def Let_def)

lemma draw_line_rejected:
  "project b zoom p0 = None \<or> project b zoom p1 = None \<Longrightarrow>
     draw_line b zoom p0 p1 col = Some b"
  by (cases "project b zoom p0") (auto simp: draw_line_def)

lemma fill_tri_rejected:
  "project b zoom v0 = None \<or> project b zoom v1 = None \<or> project b zoom v2 = None \<Longrightarrow>
     fill_tri b zoom v0 v1 v2 col brightness = b"
  by (cases "project b zoom v0"; cases "project b zoom v1") (auto simp: fill_tri_def)

lemma fill_tri_degenerate:
  "project b zoom v0 = Some (x0, y0, z0) \<Longrightarrow> project b zoom v1 = Some (x1, y1, z1) \<Longrightarrow>
   project b zoom v2 = Some (x2, y2, z2) \<Longrightarrow>
   \<bar>(x1 - x0) * (y2 - y0) - (y1 - y0) * (x2 - x0)\<bar> < 1 / 10 ^ 8 \<Longrightarrow>
     fill_tri b zoom v0 v1 v2 col brightness = b"
  by (simp add: fill_tri_def Let_def split del: if_split)

text \<open>
  Claim C8. A line with an endpoint outside the projection window returns, and returns
  the buffer it was given; so does a triangle with a vertex outside the window, and a
  triangle whose three vertices project and whose signed area is below \<open>1e-8\<close> in
  absolute value.
\<close>

theorem rejected_primitive_leaves_buffer:
  "(project b zoom p0 = None \<or> project b zoom p1 = None \<longrightarrow>
      draw_line b zoom p0 p1 col = Some b) \<and>
   (project b zoom v0 = None \<or> project b zoom v1 = None \<or> project b zoom v2 = None \<longrightarrow>
      fill_tri b zoom v0 v1 v2 col brightness = b) \<and>
   (project b zoom v0 = Some (x0, y0, z0) \<and> project b zoom v1 = Some (x1, y1, z1) \<and>
    project b zoom v2 = Some (x2, y2, z2) \<and>
    \<bar>(x1 - x0) * (y2 - y0) - (y1 - y0) * (x2 - x0)\<bar> < 1 / 10 ^ 8 \<longrightarrow>
      fill_tri b zoom v0 v1 v2 col brightness = b)"
  using draw_line_rejected [of b zoom p0 p1 col]
    fill_tri_rejected [of b zoom v0 v1 v2 col brightness]
    fill_tri_degenerate [of b zoom v0 x0 y0 z0 v1 x1 y1 z1 v2 x2 y2 z2 col brightness]
  by blast

theorem rejected_primitive_leaves_buffer_witness:
  "project frame_4x2 2 (v3 0 0 1) = None \<and>
   draw_line frame_4x2 2 (v3 0 0 (- 5)) (v3 0 0 1) (rgb 255 255 255) = Some frame_4x2 \<and>
   fill_tri frame_4x2 2 (v3 0 0 (- 5)) (v3 1 0 (- 5)) (v3 0 0 1) (rgb 255 255 255) 1
     = frame_4x2 \<and>
   project frame_4x2 2 (v3 0 0 (- 5)) = Some (2, 2, - 5) \<and>
   project frame_4x2 2 (v3 1 0 (- 5)) = Some (126 / 25, 2, - 5) \<and>
   project frame_4x2 2 (v3 2 0 (- 5)) = Some (202 / 25, 2, - 5) \<and>
   \<bar>(126 / 25 - 2) * (2 - 2) - (2 - 2) * (202 / 25 - 2)\<bar> < (1::real) / 10 ^ 8 \<and>
   fill_tri frame_4x2 2 (v3 0 0 (- 5)) (v3 1 0 (- 5)) (v3 2 0 (- 5)) (rgb 255 0 128) 1
     = frame_4x2"
proof -
  have r: "project frame_4x2 2 (v3 0 0 1) = None"
    by (simp add: project_def v3_def)
  have p: "project frame_4x2 2 (v3 0 0 (- 5)) = Some (2, 2, - 5)"
    "project frame_4x2 2 (v3 1 0 (- 5)) = Some (126 / 25, 2, - 5)"
    "project frame_4x2 2 (v3 2 0 (- 5)) = Some (202 / 25, 2, - 5)"
    by (simp_all add: project_def v3_def frame_4x2_eq Let_def)
  have a: "\<bar>(126 / 25 - 2) * (2 - 2) - (2 - 2) * (202 / 25 - 2)\<bar> < (1::real) / 10 ^ 8"
    by simp
  show ?thesis
    using rejected_primitive_leaves_buffer [where b = frame_4x2 and zoom = 2
        and ?p0.0 = "v3 0 0 (- 5)" and ?p1.0 = "v3 0 0 1" and col = "rgb 255 255 255"
        and ?v0.0 = "v3 0 0 (- 5)" and ?v1.0 = "v3 1 0 (- 5)" and ?v2.0 = "v3 0 0 1"
        and brightness = 1]
      rejected_primitive_leaves_buffer [where b = frame_4x2 and zoom = 2
        and ?p0.0 = "v3 0 0 (- 5)" and ?p1.0 = "v3 0 0 1" and col = "rgb 255 0 128"
        and ?v0.0 = "v3 0 0 (- 5)" and ?v1.0 = "v3 1 0 (- 5)" and ?v2.0 = "v3 2 0 (- 5)"
        and brightness = 1 and ?x0.0 = 2 and ?y0.0 = 2 and ?z0.0 = "- 5"
        and ?x1.0 = "126 / 25" and ?y1.0 = 2 and ?z1.0 = "- 5"
        and ?x2.0 = "202 / 25" and ?y2.0 = 2 and ?z2.0 = "- 5"]
      r p a
    by simp
qed

subsection \<open>Termination of the line walk\<close>






subsection \<open>Winding of a triangle\<close>







subsection \<open>Culling\<close>

text \<open>The cube with all three angles zero, and the square roots met in its normals.\<close>

lemma upt_6: "[0..<6] = [0, 1, 2, 3, 4, 5]"
  by (simp add: upt_rec)

lemma upt_4: "[0..<4] = [0, 1, 2, 3]"
  by (simp add: upt_rec)

lemma canonical_verts:
  "transform_verts 0 0 0 =
     [v3 (- 1) (- 1) (- 6), v3 1 (- 1) (- 6), v3 1 1 (- 6), v3 (- 1) 1 (- 6),
      v3 (- 1) (- 1) (- 4), v3 1 (- 1) (- 4), v3 1 1 (- 4), v3 (- 1) 1 (- 4)]"
  by (simp add: transform_verts_def transform_vert_def CUBE_VERTS_def scale_def v3_def
      rot_x_apply_def rot_y_apply_def rot_z_apply_def)

lemma sqrt_16: "sqrt 16 = 4"
  using real_sqrt_abs [of 4] by simp

lemma sqrt_36: "sqrt 36 = 6"
  using real_sqrt_abs [of 6] by simp

lemma canonical_normals:
  "face_normal (transform_verts 0 0 0) 0 = v3 0 0 1"
  "face_normal (transform_verts 0 0 0) (Suc 0) = v3 0 0 (- 1)"
  "face_normal (transform_verts 0 0 0) 2 = v3 1 0 0"
  "face_normal (transform_verts 0 0 0) 3 = v3 (- 1) 0 0"
  "face_normal (transform_verts 0 0 0) 4 = v3 0 (- 1) 0"
  "face_normal (transform_verts 0 0 0) 5 = v3 0 1 0"
  by (simp_all add: canonical_verts face_normal_def CUBE_FACES_def sub_def cross_def v3_def
      normalize_v_def length_v_def dot_def scale_def sqrt_16 Let_def)

lemma canonical_centers:
  "face_center (transform_verts 0 0 0) 0 = v3 0 0 (- 6)"
  "face_center (transform_verts 0 0 0) (Suc 0) = v3 0 0 (- 4)"
  "face_center (transform_verts 0 0 0) 2 = v3 (- 1) 0 (- 5)"
  "face_center (transform_verts 0 0 0) 3 = v3 1 0 (- 5)"
  "face_center (transform_verts 0 0 0) 4 = v3 0 1 (- 5)"
  "face_center (transform_verts 0 0 0) 5 = v3 0 (- 1) (- 5)"
  by (simp_all add: canonical_verts face_center_def CUBE_FACES_def add_def v3_def scale_def)


lemma sqrt_26: "1 < sqrt 26 * 100000000" "0 < sqrt 26"
proof -
  have "1 < sqrt 26" by simp
  then show "1 < sqrt 26 * 100000000" "0 < sqrt 26" by linarith+
qed

lemma canonical_facing:
  "dot (face_normal (transform_verts 0 0 0) 0)
       (normalize_v (scale (face_center (transform_verts 0 0 0) 0) (- 1))) > 0"
  "\<not> dot (face_normal (transform_verts 0 0 0) (Suc 0))
       (normalize_v (scale (face_center (transform_verts 0 0 0) (Suc 0)) (- 1))) > 0"
  "dot (face_normal (transform_verts 0 0 0) 2)
       (normalize_v (scale (face_center (transform_verts 0 0 0) 2) (- 1))) > 0"
  "dot (face_normal (transform_verts 0 0 0) 3)
       (normalize_v (scale (face_center (transform_verts 0 0 0) 3) (- 1))) > 0"
  "dot (face_normal (transform_verts 0 0 0) 4)
       (normalize_v (scale (face_center (transform_verts 0 0 0) 4) (- 1))) > 0"
  "dot (face_normal (transform_verts 0 0 0) 5)
       (normalize_v (scale (face_center (transform_verts 0 0 0) 5) (- 1))) > 0"
  by (simp_all add: canonical_normals canonical_centers v3_def
      normalize_v_def length_v_def dot_def scale_def sqrt_16 sqrt_36 sqrt_26 Let_def)

lemma cull_fold_idx:
  "map f_idx (fold (cull_step t verts) is acc) =
   map f_idx acc @
   filter (\<lambda>i. dot (face_normal verts i) (normalize_v (scale (face_center verts i) (- 1))) > 0) is"
  by (induction "is" arbitrary: acc) (simp_all add: cull_step_def Let_def)

lemma cull_faces_idx:
  "map f_idx (cull_faces t verts) =
   filter (\<lambda>i. dot (face_normal verts i) (normalize_v (scale (face_center verts i) (- 1))) > 0)
     [0..<6]"
  by (simp add: cull_faces_def cull_fold_idx)

lemma canonical_cull:
  "map f_idx (cull_faces t (transform_verts 0 0 0)) = [0, 2, 3, 4, 5]"
  unfolding cull_faces_idx upt_6 by (simp add: canonical_facing)

text \<open>
  Claim C5, as the code has it. Face \<open>i\<close> is kept by the culling loop exactly when the
  dot product of its normal with the normalised negated centroid is strictly positive.
  For the cube with all three angles zero, moved back by 5, the loop keeps five of the
  six faces, all but face 1: the normals computed from the winding of \<^verbatim>\<open>CUBE_FACES\<close>
  point into the cube, so the face nearest to the camera is the one that fails the test.
\<close>

theorem backface_culling:
  "(i \<in> f_idx ` set (cull_faces time_global verts) \<longleftrightarrow>
      i < 6 \<and>
      dot (face_normal verts i) (normalize_v (scale (face_center verts i) (- 1))) > 0) \<and>
   map f_idx (cull_faces time_global (transform_verts 0 0 0)) = [0, 2, 3, 4, 5] \<and>
   length (cull_faces time_global (transform_verts 0 0 0)) = 5"
proof -
  have "f_idx ` set (cull_faces time_global verts) =
      set (map f_idx (cull_faces time_global verts))" by simp
  also have "\<dots> = {i. i < 6 \<and>
      dot (face_normal verts i) (normalize_v (scale (face_center verts i) (- 1))) > 0}"
    unfolding cull_faces_idx by auto
  finally have 1: "i \<in> f_idx ` set (cull_faces time_global verts) \<longleftrightarrow>
      i < 6 \<and>
      dot (face_normal verts i) (normalize_v (scale (face_center verts i) (- 1))) > 0"
    by simp
  have "length (map f_idx (cull_faces time_global (transform_verts 0 0 0))) = 5"
    unfolding canonical_cull by simp
  then have 2: "length (cull_faces time_global (transform_verts 0 0 0)) = 5" by simp
  from 1 2 canonical_cull [of time_global] show ?thesis by blast
qed

theorem backface_culling_witness:
  "2 \<in> f_idx ` set (cull_faces 0 (transform_verts 0 0 0)) \<and>
   dot (face_normal (transform_verts 0 0 0) 2)
       (normalize_v (scale (face_center (transform_verts 0 0 0) 2) (- 1))) > 0 \<and>
   Suc 0 \<notin> f_idx ` set (cull_faces 0 (transform_verts 0 0 0)) \<and>
   map f_idx (cull_faces 0 (transform_verts 0 0 0)) = [0, 2, 3, 4, 5] \<and>
   length (cull_faces 0 (transform_verts 0 0 0)) = 5"
  using backface_culling [of 2 0 "transform_verts 0 0 0"]
    backface_culling [of "Suc 0" 0 "transform_verts 0 0 0"] canonical_facing(2,3)
  by simp

text \<open>
  The claim C5 as it is stated fails for the cube with all three angles zero: the
  number of faces kept is not three.
\<close>

theorem backface_culling_counterexample:
  "length (cull_faces 0 (transform_verts 0 0 0)) \<noteq> 3"
proof -
  have "length (map f_idx (cull_faces 0 (transform_verts 0 0 0))) = 5"
    unfolding canonical_cull by simp
  then show ?thesis by simp
qed

subsection \<open>Silhouette edges\<close>

lemma cull_faces_distinct: "distinct (map f_idx (cull_faces t verts))"
  by (simp add: cull_faces_idx)

lemma cull_faces_range: "fc \<in> set (cull_faces t verts) \<Longrightarrow> f_idx fc < 6"
proof -
  assume "fc \<in> set (cull_faces t verts)"
  then have "f_idx fc \<in> set (map f_idx (cull_faces t verts))" by simp
  then show ?thesis unfolding cull_faces_idx by simp
qed

lemma swap_if_deeper_mset:
  "i < length faces \<Longrightarrow> j < length faces \<Longrightarrow> mset (swap_if_deeper i j faces) = mset faces"
  by (simp add: swap_if_deeper_def mset_swap [of j faces i])

lemma inner_sort_mset:
  "i < length faces \<Longrightarrow> \<forall>j \<in> set js. j < length faces \<Longrightarrow>
     mset (fold (swap_if_deeper i) js faces) = mset faces"
proof (induction js arbitrary: faces)
  case Nil
  then show ?case by simp
next
  case (Cons j js)
  have m: "mset (swap_if_deeper i j faces) = mset faces"
    using Cons.prems by (simp add: swap_if_deeper_mset)
  then have l: "length (swap_if_deeper i j faces) = length faces"
    by (rule mset_eq_length)
  have "mset (fold (swap_if_deeper i) js (swap_if_deeper i j faces)) =
        mset (swap_if_deeper i j faces)"
    using Cons.prems l by (intro Cons.IH) auto
  with m show ?case by simp
qed

lemma outer_sort_mset:
  "\<forall>i \<in> set is. i < n \<Longrightarrow> n = length faces \<Longrightarrow>
     mset (fold (\<lambda>i. fold (swap_if_deeper i) [i + 1..<n]) is faces) = mset faces"
proof (induction "is" arbitrary: faces)
  case Nil
  then show ?case by simp
next
  case (Cons i "is")
  have m: "mset (fold (swap_if_deeper i) [i + 1..<n] faces) = mset faces"
    using Cons.prems by (intro inner_sort_mset) auto
  then have l: "length (fold (swap_if_deeper i) [i + 1..<n] faces) = length faces"
    by (rule mset_eq_length)
  have "mset (fold (\<lambda>i. fold (swap_if_deeper i) [i + 1..<n]) is
                (fold (swap_if_deeper i) [i + 1..<n] faces)) =
        mset (fold (swap_if_deeper i) [i + 1..<n] faces)"
    using Cons.prems l by (intro Cons.IH) auto
  with m show ?case by simp
qed

lemma sort_faces_mset: "mset (sort_faces faces) = mset faces"
  unfolding sort_faces_def Let_def by (rule outer_sort_mset) auto

lemma has_flags_eq:
  assumes "length face = 4"
  shows "has_flags face v0 v1 = (v0 \<in> set face, v1 \<in> set face)"
proof -
  obtain a b c d where f: "face = [a, b, c, d]"
    using assms by (auto simp: length_Suc_conv numeral_eq_Suc)
  show ?thesis
    unfolding has_flags_def upt_4 f by auto
qed

lemma cube_face_length: "i < 6 \<Longrightarrow> length (CUBE_FACES ! i) = 4"
proof -
  assume "i < 6"
  then have "i \<in> {0, 1, 2, 3, 4, 5}" by auto
  then show ?thesis by (auto simp: CUBE_FACES_def)
qed

lemma shared_fold:
  assumes "\<forall>fc \<in> set faces. f_idx fc < 6"
  shows "fold (\<lambda>fc shared.
             case has_flags (CUBE_FACES ! f_idx fc) v0 v1 of
               (has_v0, has_v1) \<Rightarrow> if has_v0 \<and> has_v1 then shared + 1 else shared)
          faces acc =
         acc + int (length (filter (\<lambda>fc. v0 \<in> set (CUBE_FACES ! f_idx fc) \<and>
                                          v1 \<in> set (CUBE_FACES ! f_idx fc)) faces))"
  using assms
  by (induction faces arbitrary: acc) (simp_all add: has_flags_eq cube_face_length)

lemma shared_count_eq:
  assumes "\<forall>fc \<in> set faces. f_idx fc < 6"
  shows "shared_count faces v0 v1 =
         int (length (filter (\<lambda>fc. v0 \<in> set (CUBE_FACES ! f_idx fc) \<and>
                                    v1 \<in> set (CUBE_FACES ! f_idx fc)) faces))"
  unfolding shared_count_def using shared_fold [OF assms, of v0 v1 0] by simp

lemma count_by_index:
  assumes "distinct (map f_idx faces)"
  shows "length (filter (\<lambda>fc. Q (f_idx fc)) faces) = card {i \<in> f_idx ` set faces. Q i}"
proof -
  have "length (filter (\<lambda>fc. Q (f_idx fc)) faces) = length (filter Q (map f_idx faces))"
    by (simp add: filter_map comp_def)
  also have "\<dots> = card (set (filter Q (map f_idx faces)))"
    by (rule distinct_card [symmetric, OF distinct_filter [OF assms]])
  also have "set (filter Q (map f_idx faces)) = {i \<in> f_idx ` set faces. Q i}"
    by auto
  finally show ?thesis .
qed

lemma shared_count_visible:
  "shared_count (sort_faces (cull_faces t verts)) v0 v1 =
   int (card {i \<in> f_idx ` set (cull_faces t verts).
               v0 \<in> set (CUBE_FACES ! i) \<and> v1 \<in> set (CUBE_FACES ! i)})"
proof -
  let ?Q = "\<lambda>i. v0 \<in> set (CUBE_FACES ! i) \<and> v1 \<in> set (CUBE_FACES ! i)"
  let ?fs = "cull_faces t verts"
  have s: "set (sort_faces ?fs) = set ?fs"
    using sort_faces_mset [of ?fs] by (rule mset_eq_setD)
  then have "\<forall>fc \<in> set (sort_faces ?fs). f_idx fc < 6"
    by (simp add: cull_faces_range)
  then have "shared_count (sort_faces ?fs) v0 v1 =
      int (length (filter (\<lambda>fc. ?Q (f_idx fc)) (sort_faces ?fs)))"
    by (rule shared_count_eq)
  also have "length (filter (\<lambda>fc. ?Q (f_idx fc)) (sort_faces ?fs)) =
      size (filter_mset (\<lambda>fc. ?Q (f_idx fc)) (mset (sort_faces ?fs)))"
    by (simp flip: mset_filter)
  also have "\<dots> = length (filter (\<lambda>fc. ?Q (f_idx fc)) ?fs)"
    by (simp add: sort_faces_mset flip: mset_filter)
  also have "\<dots> = card {i \<in> f_idx ` set ?fs. ?Q i}"
    using cull_faces_distinct by (rule count_by_index)
  finally show ?thesis .
qed

lemma edge_loop_filter:
  "edge_loop zoom verts faces es b =
   draw_lines zoom verts (filter (\<lambda>(v0, v1). shared_count faces v0 v1 = 1) es) b"
  by (induction es arbitrary: b) (auto split: option.splits)


text \<open>
  The three rotations keep the length of a vertex, so every transformed vertex of the
  cube has its depth between -7 and -3 and passes projection.
\<close>

lemma rot_pair:
  fixes p q :: real
  shows "(p * cos a - q * sin a) * (p * cos a - q * sin a) +
         (p * sin a + q * cos a) * (p * sin a + q * cos a) = p * p + q * q"
proof -
  have c: "cos a * cos a = 1 - sin a * sin a"
    using sin_cos_squared_add [of a] by (simp add: power2_eq_square)
  show ?thesis by (simp add: algebra_simps c)
qed

lemma rot_x_norm: "dot (rot_x_apply v a) (rot_x_apply v a) = dot v v"
  using rot_pair [of "vy v" a "vz v"] by (simp add: dot_def rot_x_apply_def Let_def)

lemma rot_y_norm: "dot (rot_y_apply v a) (rot_y_apply v a) = dot v v"
  using rot_pair [of "vz v" a "vx v"]
  by (simp add: dot_def rot_y_apply_def Let_def algebra_simps)

lemma rot_z_norm: "dot (rot_z_apply v a) (rot_z_apply v a) = dot v v"
  using rot_pair [of "vx v" a "vy v"] by (simp add: dot_def rot_z_apply_def Let_def)

lemma cube_vert_norm: "cv \<in> set CUBE_VERTS \<Longrightarrow> dot (scale cv 1) (scale cv 1) = 3"
  by (auto simp: CUBE_VERTS_def dot_def scale_def v3_def)

lemma transform_vert_depth:
  assumes "cv \<in> set CUBE_VERTS"
  shows "- 7 < vz (transform_vert rot_x rot_y rot_z cv)"
    and "vz (transform_vert rot_x rot_y rot_z cv) < - 3"
proof -
  define v where "v = rot_z_apply (rot_y_apply (rot_x_apply (scale cv 1) rot_x) rot_y) rot_z"
  have "dot v v = 3"
    unfolding v_def by (simp add: rot_x_norm rot_y_norm rot_z_norm cube_vert_norm assms)
  then have "vx v * vx v + vy v * vy v + vz v * vz v = 3" by (simp add: dot_def)
  with zero_le_square [of "vx v"] zero_le_square [of "vy v"]
  have "vz v * vz v \<le> 3" by linarith
  have "\<bar>vz v\<bar> < 2"
  proof (rule ccontr)
    assume "\<not> \<bar>vz v\<bar> < 2"
    then have "2 \<le> \<bar>vz v\<bar>" by simp
    then have "2 * 2 \<le> \<bar>vz v\<bar> * \<bar>vz v\<bar>" by (intro mult_mono) auto
    with \<open>vz v * vz v \<le> 3\<close> show False by simp
  qed
  have "vz (transform_vert rot_x rot_y rot_z cv) = vz v - 5"
    by (simp add: transform_vert_def v_def Let_def)
  with \<open>\<bar>vz v\<bar> < 2\<close> show "- 7 < vz (transform_vert rot_x rot_y rot_z cv)"
    and "vz (transform_vert rot_x rot_y rot_z cv) < - 3" by simp_all
qed

lemma transformed_vertex_projects:
  assumes "v < 8"
  shows "project b zoom (transform_verts rot_x rot_y rot_z ! v) \<noteq> None"
proof -
  have l: "length CUBE_VERTS = 8" by (simp add: CUBE_VERTS_def)
  then have "CUBE_VERTS ! v \<in> set CUBE_VERTS" using assms by simp
  from transform_vert_depth [OF this, of rot_x rot_y rot_z]
  show ?thesis using assms l by (simp add: transform_verts_def project_None_iff)
qed

lemma edge_ends: "(v0, v1) \<in> set edges \<Longrightarrow> v0 < 8 \<and> v1 < 8"
  by (auto simp: edges_def)

text \<open>
  Claim C6. With the faces kept by the culling loop, sorted, as the visible faces:
  the last loop calls \<^verbatim>\<open>draw_line\<close> on a pair \<open>(v0, v1)\<close> exactly when the pair is one of
  the twelve edges and the number of visible faces that have both \<open>v0\<close> and \<open>v1\<close> among
  their corners is one; an edge with two such faces or none is skipped. The loop's
  result, and with it that of \<^verbatim>\<open>render_cube\<close>, is that of drawing these edges in order;
  both ends of every edge pass projection, so the line of a selected edge is walked.
\<close>

theorem silhouette_edge_selection:
  "((v0, v1) \<in> set (silhouette_edges (sort_faces (cull_faces time_global verts))) \<longleftrightarrow>
      (v0, v1) \<in> set edges \<and>
      card {i \<in> f_idx ` set (cull_faces time_global verts).
             v0 \<in> set (CUBE_FACES ! i) \<and> v1 \<in> set (CUBE_FACES ! i)} = 1) \<and>
   edge_loop zoom verts (sort_faces (cull_faces time_global verts)) edges b =
     draw_lines zoom verts
       (silhouette_edges (sort_faces (cull_faces time_global verts))) b \<and>
   render_cube b time_global zoom rot_x rot_y rot_z =
     draw_lines zoom (transform_verts rot_x rot_y rot_z)
       (silhouette_edges
          (sort_faces (cull_faces time_global (transform_verts rot_x rot_y rot_z))))
       (fold (fill_face zoom (transform_verts rot_x rot_y rot_z))
          (sort_faces (cull_faces time_global (transform_verts rot_x rot_y rot_z))) b) \<and>
   ((v0, v1) \<in> set edges \<longrightarrow>
      project b zoom (transform_verts rot_x rot_y rot_z ! v0) \<noteq> None \<and>
      project b zoom (transform_verts rot_x rot_y rot_z ! v1) \<noteq> None)"
  using edge_ends [of v0 v1]
  by (simp add: silhouette_edges_def shared_count_visible edge_loop_filter render_cube_def
      Let_def transformed_vertex_projects)

theorem silhouette_edge_selection_witness:
  "(4, 5) \<in> set (silhouette_edges (sort_faces (cull_faces 0 (transform_verts 0 0 0)))) \<and>
   (4, 5) \<in> set edges \<and>
   card {i \<in> f_idx ` set (cull_faces 0 (transform_verts 0 0 0)).
          4 \<in> set (CUBE_FACES ! i) \<and> 5 \<in> set (CUBE_FACES ! i)} = 1 \<and>
   project frame_4x2 2 (transform_verts 0 0 0 ! 4) \<noteq> None \<and>
   project frame_4x2 2 (transform_verts 0 0 0 ! 5) \<noteq> None \<and>
   (0, 1) \<notin> set (silhouette_edges (sort_faces (cull_faces 0 (transform_verts 0 0 0)))) \<and>
   card {i \<in> f_idx ` set (cull_faces 0 (transform_verts 0 0 0)).
          0 \<in> set (CUBE_FACES ! i) \<and> 1 \<in> set (CUBE_FACES ! i)} = 2"
proof -
  have "f_idx ` set (cull_faces 0 (transform_verts 0 0 0)) =
      set (map f_idx (cull_faces 0 (transform_verts 0 0 0)))" by simp
  then have v: "f_idx ` set (cull_faces 0 (transform_verts 0 0 0)) = {0, 2, 3, 4, 5}"
    unfolding canonical_cull by simp
  have "{i \<in> {0, 2, 3, 4, 5::nat}. 4 \<in> set (CUBE_FACES ! i) \<and> 5 \<in> set (CUBE_FACES ! i)} = {5}"
    by (auto simp: CUBE_FACES_def)
  then have a: "card {i \<in> f_idx ` set (cull_faces 0 (transform_verts 0 0 0)).
      4 \<in> set (CUBE_FACES ! i) \<and> 5 \<in> set (CUBE_FACES ! i)} = 1"
    unfolding v by simp
  have "{i \<in> {0, 2, 3, 4, 5::nat}. 0 \<in> set (CUBE_FACES ! i) \<and> 1 \<in> set (CUBE_FACES ! i)}
      = {0, 5}"
    by (auto simp: CUBE_FACES_def)
  then have b: "card {i \<in> f_idx ` set (cull_faces 0 (transform_verts 0 0 0)).
      0 \<in> set (CUBE_FACES ! i) \<and> 1 \<in> set (CUBE_FACES ! i)} = 2"
    unfolding v by simp
  have e: "(4, 5) \<in> set edges" by (simp add: edges_def)
  show ?thesis
    using silhouette_edge_selection [where ?v0.0 = 4 and ?v1.0 = 5 and time_global = 0
        and verts = "transform_verts 0 0 0" and b = frame_4x2 and zoom = 2
        and rot_x = 0 and rot_y = 0 and rot_z = 0]
      silhouette_edge_selection [where ?v0.0 = 0 and ?v1.0 = 1 and time_global = 0
        and verts = "transform_verts 0 0 0" and b = frame_4x2 and zoom = 2
        and rot_x = 0 and rot_y = 0 and rot_z = 0] a b e
    by simp
qed

subsection \<open>Colour instructions of the compositor\<close>

lemma differs_iff: "differs c l \<longleftrightarrow> c \<noteq> l"
  by (auto simp: differs_def intro: Color.equality)

lemma emit_cell_pair:
  assumes "required_fg c1 = required_fg c2" "required_bg c1 = required_bg c2"
  shows "fg_changes (fst (emit_cell c2 (snd (emit_cell c1 st)))) = [] \<and>
         bg_changes (fst (emit_cell c2 (snd (emit_cell c1 st)))) = [] \<and>
         length (fg_changes (fst (emit_cell c1 st))) \<le> 1 \<and>
         length (bg_changes (fst (emit_cell c1 st))) \<le> 1"
proof -
  obtain t1 b1 tc1 bc1 where c1: "c1 = (t1, b1, tc1, bc1)" by (cases c1) auto
  obtain t2 b2 tc2 bc2 where c2: "c2 = (t2, b2, tc2, bc2)" by (cases c2) auto
  show ?thesis
    using assms unfolding c1 c2
    by (cases t1; cases b1; cases t2; cases b2)
      (simp_all add: emit_cell_def required_fg_def required_bg_def differs_iff
        fg_changes_def bg_changes_def)
qed

lemma emit_cell_on_change:
  "(SetFg c \<in> set (fst (emit_cell cell st)) \<longleftrightarrow>
      required_fg cell = Some c \<and> differs c (last_fg st)) \<and>
   (SetBg c \<in> set (fst (emit_cell cell st)) \<longleftrightarrow>
      required_bg cell = Some c \<and> differs c (last_bg st)) \<and>
   (DefaultBg \<in> set (fst (emit_cell cell st)) \<longleftrightarrow>
      required_bg cell = None \<and> \<not> bg_is_default st)"
proof -
  obtain t1 b1 tc1 bc1 where c: "cell = (t1, b1, tc1, bc1)" by (cases cell) auto
  show ?thesis
    unfolding c
    by (cases t1; cases b1)
      (auto simp: emit_cell_def required_fg_def required_bg_def)
qed

lemma cells_loop_length: "length (fst (cells_loop b y xs st)) = length xs"
  by (induction xs arbitrary: st) (simp_all add: case_prod_beta)

lemma cells_loop_adjacent:
  "Suc i < length xs \<Longrightarrow>
   \<exists>st'. fst (cells_loop b y xs st) ! i = fst (emit_cell (cell_at b (xs ! i) y) st') \<and>
         fst (cells_loop b y xs st) ! Suc i =
           fst (emit_cell (cell_at b (xs ! Suc i) y)
                  (snd (emit_cell (cell_at b (xs ! i) y) st')))"
proof (induction xs arbitrary: st i)
  case Nil
  then show ?case by simp
next
  case (Cons x xs)
  show ?case
  proof (cases i)
    case 0
    with Cons.prems obtain x' xs' where xs: "xs = x' # xs'" by (cases xs) auto
    show ?thesis
      unfolding 0 xs
      by (rule exI [of _ st]) (simp add: case_prod_beta)
  next
    case (Suc i')
    with Cons.prems have "Suc i' < length xs" by simp
    from Cons.IH [OF this, of "snd (emit_cell (cell_at b x y) st)"]
    show ?thesis unfolding Suc by (simp add: case_prod_beta)
  qed
qed

lemma rows_loop_length: "length (rows_loop b ys st) = length ys"
  by (induction ys arbitrary: st) (simp_all add: case_prod_beta)

lemma rows_loop_nth:
  "k < length ys \<Longrightarrow>
   \<exists>st'. rows_loop b ys st ! k = fst (cells_loop b (ys ! k) [0..width b - 1] st')"
proof (induction ys arbitrary: st k)
  case Nil
  then show ?case by simp
next
  case (Cons y ys)
  show ?case
  proof (cases k)
    case 0
    show ?thesis unfolding 0 by (rule exI [of _ st]) (simp add: case_prod_beta)
  next
    case (Suc k')
    with Cons.prems have "k' < length ys" by simp
    from Cons.IH [OF this]
    show ?thesis unfolding Suc by (simp add: case_prod_beta)
  qed
qed

lemma render_cells_adjacent:
  assumes "int y < height b" "int x + 1 < width b"
  shows "\<exists>st. render_cells b ! y ! x = fst (emit_cell (cell_at b (int x) (int y)) st) \<and>
              render_cells b ! y ! Suc x =
                fst (emit_cell (cell_at b (int x + 1) (int y))
                       (snd (emit_cell (cell_at b (int x) (int y)) st)))"
proof -
  have ly: "y < length [0..height b - 1]" using assms by simp
  have ny: "[0..height b - 1] ! y = int y" using assms by (simp add: nth_upto)
  have lx: "Suc x < length [0..width b - 1]" using assms by simp
  have nx: "[0..width b - 1] ! x = int x" "[0..width b - 1] ! Suc x = int x + 1"
    using assms by (simp_all add: nth_upto)
  from rows_loop_nth [OF ly] obtain st' where
    "render_cells b ! y = fst (cells_loop b (int y) [0..width b - 1] st')"
    unfolding render_cells_def ny by blast
  with cells_loop_adjacent [OF lx, of b "int y" st'] show ?thesis
    unfolding nx by simp
qed


lemma two_cells_eq:
  "two_cells = \<lparr>width = 4, height = 2,
     top_color = [rgb 0 0 0, rgb 255 0 128, rgb 255 0 128, rgb 0 0 0,
                  rgb 0 0 0, rgb 0 0 0, rgb 0 0 0, rgb 0 0 0],
     bot_color = replicate 8 (rgb 0 0 0),
     top_depth = [- (10 ^ 10), - 5, - 5, - (10 ^ 10),
                  - (10 ^ 10), - (10 ^ 10), - (10 ^ 10), - (10 ^ 10)],
     bot_depth = replicate 8 (- (10 ^ 10))\<rparr>"
  by (simp add: two_cells_def frame_4x2_eq put_pixel_def numeral_eq_Suc)

lemma two_cells_cells:
  "cell_at two_cells 1 0 = (True, False, rgb 255 0 128, rgb 0 0 0)"
  "cell_at two_cells 2 0 = (True, False, rgb 255 0 128, rgb 0 0 0)"
  by (simp_all add: two_cells_eq cell_at_def numeral_eq_Suc)

lemma two_cells_row:
  "render_cells two_cells ! 0 =
     [[Blank], [SetFg (rgb 255 0 128), UpperHalf], [UpperHalf], [Blank]]"
  by code_simp

text \<open>
  Claim C9. For two neighbouring cells \<open>(x, y)\<close> and \<open>(x + 1, y)\<close> of a row that ask for
  the same foreground and the same background: the output for the pair holds at most
  one foreground instruction and at most one background instruction, and the output
  for the second cell holds no colour instruction at all. The output for a cell is
  that of the loop body at the tracked state, and the loop body emits a colour
  instruction exactly when the cell asks for a colour that differs from the tracked
  one: a foreground instruction when the foreground asked for differs from
  \<^verbatim>\<open>last_fg\<close>, a background instruction when the background asked for differs from
  \<^verbatim>\<open>last_bg\<close>, the return to the default background when the default is asked for
  and \<^verbatim>\<open>bg_is_default\<close> is not set.
\<close>

theorem compositor_color_minimal:
  assumes "int y < height b" "int x + 1 < width b"
    and "required_fg (cell_at b (int x) (int y)) = required_fg (cell_at b (int x + 1) (int y))"
    and "required_bg (cell_at b (int x) (int y)) = required_bg (cell_at b (int x + 1) (int y))"
  shows "length (fg_changes (render_cells b ! y ! x @ render_cells b ! y ! Suc x)) \<le> 1 \<and>
         length (bg_changes (render_cells b ! y ! x @ render_cells b ! y ! Suc x)) \<le> 1 \<and>
         fg_changes (render_cells b ! y ! Suc x) = [] \<and>
         bg_changes (render_cells b ! y ! Suc x) = [] \<and>
         (\<exists>st'. render_cells b ! y ! x = fst (emit_cell (cell_at b (int x) (int y)) st') \<and>
                render_cells b ! y ! Suc x =
                  fst (emit_cell (cell_at b (int x + 1) (int y))
                         (snd (emit_cell (cell_at b (int x) (int y)) st')))) \<and>
         (SetFg c \<in> set (fst (emit_cell cell st)) \<longleftrightarrow>
            required_fg cell = Some c \<and> differs c (last_fg st)) \<and>
         (SetBg c \<in> set (fst (emit_cell cell st)) \<longleftrightarrow>
            required_bg cell = Some c \<and> differs c (last_bg st)) \<and>
         (DefaultBg \<in> set (fst (emit_cell cell st)) \<longleftrightarrow>
            required_bg cell = None \<and> \<not> bg_is_default st)"
proof -
  from render_cells_adjacent [OF assms(1,2)] obtain st' where
    r: "render_cells b ! y ! x = fst (emit_cell (cell_at b (int x) (int y)) st')"
       "render_cells b ! y ! Suc x =
          fst (emit_cell (cell_at b (int x + 1) (int y))
                 (snd (emit_cell (cell_at b (int x) (int y)) st')))"
    by blast
  from emit_cell_pair [OF assms(3,4), of st']
  have "length (fg_changes (render_cells b ! y ! x @ render_cells b ! y ! Suc x)) \<le> 1"
    "length (bg_changes (render_cells b ! y ! x @ render_cells b ! y ! Suc x)) \<le> 1"
    "fg_changes (render_cells b ! y ! Suc x) = []"
    "bg_changes (render_cells b ! y ! Suc x) = []"
    unfolding r by (simp_all add: fg_changes_def bg_changes_def)
  with emit_cell_on_change [of c cell st] r show ?thesis by blast
qed

theorem compositor_color_minimal_witness:
  "int 0 < height two_cells \<and> int 1 + 1 < width two_cells \<and>
   required_fg (cell_at two_cells (int 1) (int 0)) =
     required_fg (cell_at two_cells (int 1 + 1) (int 0)) \<and>
   required_bg (cell_at two_cells (int 1) (int 0)) =
     required_bg (cell_at two_cells (int 1 + 1) (int 0)) \<and>
   render_cells two_cells ! 0 ! 1 = [SetFg (rgb 255 0 128), UpperHalf] \<and>
   render_cells two_cells ! 0 ! Suc 1 = [UpperHalf] \<and>
   length (fg_changes (render_cells two_cells ! 0 ! 1 @ render_cells two_cells ! 0 ! Suc 1))
     \<le> 1 \<and>
   length (bg_changes (render_cells two_cells ! 0 ! 1 @ render_cells two_cells ! 0 ! Suc 1))
     \<le> 1 \<and>
   fg_changes (render_cells two_cells ! 0 ! Suc 1) = [] \<and>
   bg_changes (render_cells two_cells ! 0 ! Suc 1) = []"
proof -
  have h: "int 0 < height two_cells" "int 1 + 1 < width two_cells"
    by (simp_all add: two_cells_eq)
  have c: "required_fg (cell_at two_cells (int 1) (int 0)) =
             required_fg (cell_at two_cells (int 1 + 1) (int 0))"
    "required_bg (cell_at two_cells (int 1) (int 0)) =
       required_bg (cell_at two_cells (int 1 + 1) (int 0))"
    by (simp_all add: two_cells_cells)
  show ?thesis
    using compositor_color_minimal [OF h c] h c
    by (simp add: two_cells_row)
qed

end
